theory Spec2Isabelle
  imports Main
begin

section \<open>Data model\<close>

text \<open>
  The tool layer of the agent: \<^verbatim>\<open>src/tools/memory.ts\<close> (the second module of that
  file, \<^verbatim>\<open>manage_message\<close>) and \<^verbatim>\<open>src/tools/web.ts\<close> (\<^verbatim>\<open>search_web\<close>).

  Chat identifiers and message identifiers are JavaScript numbers that hold integers;
  they are modelled as \<^typ>\<open>int\<close>. JavaScript strings are modelled as \<^typ>\<open>string\<close>,
  one list element per UTF-16 code unit, so that \<^const>\<open>length\<close> is \<^verbatim>\<open>.length\<close> and
  \<^const>\<open>take\<close> is \<^verbatim>\<open>.slice(0, n)\<close>.
\<close>

type_synonym chat_id = int
type_synonym message_id = int

text \<open>\<^verbatim>\<open>const recentMessages = new Map<number, number[]>()\<close>\<close>

type_synonym message_store = "chat_id \<rightharpoonup> message_id list"

text \<open>\<^verbatim>\<open>const MAX_STORED = 20\<close>\<close>

definition MAX_STORED :: nat where
  "MAX_STORED = 20"

text \<open>
  Every tool returns \<^verbatim>\<open>{ success: boolean; output?: string; error?: string }\<close>; an
  absent optional field is \<^const>\<open>None\<close>. (The field \<^verbatim>\<open>output\<close> is written \<open>output'\<close>:
  the plain name is reserved.)
\<close>

record tool_result =
  success :: bool
  output' :: "string option"
  error :: "string option"

definition succeed :: "string \<Rightarrow> tool_result" where
  "succeed text = \<lparr>success = True, output' = Some text, error = None\<rparr>"

definition fail :: "string \<Rightarrow> tool_result" where
  "fail text = \<lparr>success = False, output' = None, error = Some text\<rparr>"

section \<open>Rendering numbers\<close>

text \<open>
  A template literal \<^verbatim>\<open>${n}\<close> renders an integer in decimal, with a leading minus sign
  when it is negative.
\<close>

definition digit_char :: "nat \<Rightarrow> char" where
  "digit_char d = ''0123456789'' ! d"

function show_nat :: "nat \<Rightarrow> string" where
  "show_nat n = (if n < 10 then [digit_char n] else show_nat (n div 10) @ [digit_char (n mod 10)])"
  by pat_completeness auto
termination
  by (relation "measure id") auto

declare show_nat.simps [simp del]

definition show_int :: "int \<Rightarrow> string" where
  "show_int i = (if i < 0 then CHR ''-'' # show_nat (nat (- i)) else show_nat (nat i))"

section \<open>The history store and the recorder\<close>

text \<open>
  \<^verbatim>\<open>getRecentMessages\<close>: \<^verbatim>\<open>recentMessages.get(chatId) || []\<close>. An array is always truthy,
  so the default is taken exactly when the key is absent.
\<close>

definition getRecentMessages :: "message_store \<Rightarrow> chat_id \<Rightarrow> message_id list" where
  "getRecentMessages store chatId = (case store chatId of None \<Rightarrow> [] | Some messages \<Rightarrow> messages)"

text \<open>
  \<^verbatim>\<open>recordBotMessage\<close>: push, then \<^verbatim>\<open>shift()\<close> once when the length exceeds
  \<^const>\<open>MAX_STORED\<close>, then store the array under the key.
\<close>

definition recordBotMessage :: "message_store \<Rightarrow> chat_id \<Rightarrow> message_id \<Rightarrow> message_store" where
  "recordBotMessage store chatId messageId =
     (let messages = (case store chatId of None \<Rightarrow> [] | Some ms \<Rightarrow> ms);
          pushed = messages @ [messageId];
          kept = (if length pushed > MAX_STORED then tl pushed else pushed)
      in store(chatId \<mapsto> kept))"

text \<open>A run of sends into one conversation: one \<^const>\<open>recordBotMessage\<close> per identifier, in order.\<close>

definition record_all :: "message_store \<Rightarrow> chat_id \<Rightarrow> message_id list \<Rightarrow> message_store" where
  "record_all store chatId ids = foldl (\<lambda>s m. recordBotMessage s chatId m) store ids"

section \<open>The delivery gateway\<close>

text \<open>
  The two callbacks are asynchronous functions of type \<^verbatim>\<open>Promise<boolean>\<close>, supplied by
  the bot and awaited once inside a \<^verbatim>\<open>try\<close>. An awaited call either yields a boolean or
  raises, and the rejection value of a promise is untyped:
  \<^item> \<open>Returns ok\<close>: the promise resolves with \<open>ok\<close>.
  \<^item> \<open>Throws m\<close>: it raises a value other than \<^verbatim>\<open>null\<close> and \<^verbatim>\<open>undefined\<close>; \<open>m\<close> is the
    text that \<^verbatim>\<open>${e.message}\<close> renders for it in the \<^verbatim>\<open>catch\<close> handler.
  \<^item> \<open>ThrowsNullish\<close>: it rejects with \<^verbatim>\<open>null\<close> or \<^verbatim>\<open>undefined\<close> (a bare
    \<^verbatim>\<open>Promise.reject()\<close>). Reading \<^verbatim>\<open>e.message\<close> in the handler then raises a
    \<^verbatim>\<open>TypeError\<close>, which nothing encloses.
  The callbacks talk to the messaging platform only: they do not touch
  \<^verbatim>\<open>recentMessages\<close>, and no other action runs between the read of the history and its
  update (one agent action at a time).
\<close>

datatype gw_outcome = Returns bool | Throws string | ThrowsNullish

text \<open>
  \<^verbatim>\<open>execute\<close> is an asynchronous function: its promise resolves with a result record
  (\<^const>\<open>Inr\<close>) or rejects with an error raised inside it and not caught (\<^const>\<open>Inl\<close>).
\<close>

datatype fault = TypeError

text \<open>The log of gateway invocations made by one action, in call order.\<close>

datatype gw_call =
    DeleteCall chat_id message_id
  | EditCall chat_id message_id string

text \<open>
  The module state: the history map and the two callbacks, \<^verbatim>\<open>null\<close> (here \<^const>\<open>None\<close>)
  until \<^verbatim>\<open>setDeleteMessageCallback\<close> / \<^verbatim>\<open>setEditMessageCallback\<close> is called.
\<close>

record bot_state =
  recentMessages :: message_store
  deleteMessageCallback :: "(chat_id \<Rightarrow> message_id \<Rightarrow> gw_outcome) option"
  editMessageCallback :: "(chat_id \<Rightarrow> message_id \<Rightarrow> string \<Rightarrow> gw_outcome) option"

definition setDeleteMessageCallback ::
  "bot_state \<Rightarrow> (chat_id \<Rightarrow> message_id \<Rightarrow> gw_outcome) \<Rightarrow> bot_state" where
  "setDeleteMessageCallback st cb = st\<lparr>deleteMessageCallback := Some cb\<rparr>"

definition setEditMessageCallback ::
  "bot_state \<Rightarrow> (chat_id \<Rightarrow> message_id \<Rightarrow> string \<Rightarrow> gw_outcome) \<Rightarrow> bot_state" where
  "setEditMessageCallback st cb = st\<lparr>editMessageCallback := Some cb\<rparr>"

section \<open>The message manager\<close>

text \<open>
  \<^verbatim>\<open>args: { action: string; index?: number; new_text?: string }\<close>. The index is an integer
  when present (\<open>0\<close> = oldest, \<open>-1\<close> = newest).
\<close>

record manage_args =
  action :: string
  index :: "int option"
  new_text :: "string option"

text \<open>
  What one call of \<^verbatim>\<open>execute\<close> leaves behind: the returned result or the error that
  escaped, the history map afterwards, and the gateway calls it made.
\<close>

record run =
  result :: "fault + tool_result"
  stored :: message_store
  calls :: "gw_call list"

text \<open>
  JavaScript truthiness of an optional string (\<^verbatim>\<open>if (s)\<close>, \<^verbatim>\<open>!s\<close>): \<^verbatim>\<open>undefined\<close> and the
  empty string are falsy. The value is the string itself when it is truthy.
\<close>

definition truthy_string :: "string option \<Rightarrow> string option" where
  "truthy_string s = (case s of None \<Rightarrow> None | Some t \<Rightarrow> if t = [] then None else Some t)"

text \<open>
  \<^verbatim>\<open>case 'delete_last'\<close>, entered with a non-empty \<open>messages\<close>. The handler
  \<^verbatim>\<open>catch (e: any) { ... ${e.message} ... }\<close> returns a failure, unless reading
  \<^verbatim>\<open>e.message\<close> raises.
\<close>

definition delete_last :: "bot_state \<Rightarrow> message_id list \<Rightarrow> chat_id \<Rightarrow> run" where
  "delete_last st messages chatId =
     (case deleteMessageCallback st of
        None \<Rightarrow> \<lparr>result = Inr (fail ''Delete not configured''), stored = recentMessages st, calls = []\<rparr>
      | Some cb \<Rightarrow>
          (let msgId = messages ! (length messages - 1) in
           case cb chatId msgId of
             Returns ok \<Rightarrow>
               if ok
               then \<lparr>result = Inr (succeed ''Deleted last message''),
                     stored = (recentMessages st)(chatId \<mapsto> butlast messages),
                     calls = [DeleteCall chatId msgId]\<rparr>
               else \<lparr>result = Inr (fail ''Failed to delete (maybe already deleted or too old)''),
                     stored = recentMessages st,
                     calls = [DeleteCall chatId msgId]\<rparr>
           | Throws m \<Rightarrow>
               \<lparr>result = Inr (fail (''Delete failed: '' @ m)),
                stored = recentMessages st,
                calls = [DeleteCall chatId msgId]\<rparr>
           | ThrowsNullish \<Rightarrow>
               \<lparr>result = Inl TypeError,
                stored = recentMessages st,
                calls = [DeleteCall chatId msgId]\<rparr>))"

text \<open>
  \<^verbatim>\<open>case 'delete_by_index'\<close>: \<^verbatim>\<open>args.index ?? -1\<close>, then a negative index counts from the
  end; \<^verbatim>\<open>messages.splice(idx, 1)\<close> removes the one element at \<open>idx\<close>.
\<close>

definition delete_by_index :: "bot_state \<Rightarrow> message_id list \<Rightarrow> chat_id \<Rightarrow> int option \<Rightarrow> run" where
  "delete_by_index st messages chatId index_arg =
     (case deleteMessageCallback st of
        None \<Rightarrow> \<lparr>result = Inr (fail ''Delete not configured''), stored = recentMessages st, calls = []\<rparr>
      | Some cb \<Rightarrow>
          (let idx0 = (case index_arg of None \<Rightarrow> - 1 | Some i \<Rightarrow> i);
               idx = (if idx0 < 0 then int (length messages) + idx0 else idx0)
           in
           if idx < 0 \<or> idx \<ge> int (length messages)
           then \<lparr>result = Inr (fail (''Invalid index. Have '' @ show_int (int (length messages))
                                 @ '' messages (0-'' @ show_int (int (length messages) - 1) @ '')'')),
                 stored = recentMessages st, calls = []\<rparr>
           else
             (let msgId = messages ! nat idx in
              case cb chatId msgId of
                Returns ok \<Rightarrow>
                  if ok
                  then \<lparr>result = Inr (succeed (''Deleted message at index '' @ show_int idx)),
                        stored = (recentMessages st)
                                  (chatId \<mapsto> take (nat idx) messages @ drop (Suc (nat idx)) messages),
                        calls = [DeleteCall chatId msgId]\<rparr>
                  else \<lparr>result = Inr (fail ''Failed to delete''),
                        stored = recentMessages st,
                        calls = [DeleteCall chatId msgId]\<rparr>
              | Throws m \<Rightarrow>
                  \<lparr>result = Inr (fail (''Delete failed: '' @ m)),
                   stored = recentMessages st,
                   calls = [DeleteCall chatId msgId]\<rparr>
              | ThrowsNullish \<Rightarrow>
                  \<lparr>result = Inl TypeError,
                   stored = recentMessages st,
                   calls = [DeleteCall chatId msgId]\<rparr>)))"

text \<open>\<^verbatim>\<open>case 'edit_last'\<close>: the callback check comes before the \<^verbatim>\<open>new_text\<close> check.\<close>

definition edit_last :: "bot_state \<Rightarrow> message_id list \<Rightarrow> chat_id \<Rightarrow> string option \<Rightarrow> run" where
  "edit_last st messages chatId new_text_arg =
     (case editMessageCallback st of
        None \<Rightarrow> \<lparr>result = Inr (fail ''Edit not configured''), stored = recentMessages st, calls = []\<rparr>
      | Some cb \<Rightarrow>
          (case truthy_string new_text_arg of
             None \<Rightarrow> \<lparr>result = Inr (fail ''new_text required for edit''),
                       stored = recentMessages st, calls = []\<rparr>
           | Some text \<Rightarrow>
               (let msgId = messages ! (length messages - 1) in
                case cb chatId msgId text of
                  Returns ok \<Rightarrow>
                    if ok
                    then \<lparr>result = Inr (succeed ''Edited last message''),
                          stored = recentMessages st,
                          calls = [EditCall chatId msgId text]\<rparr>
                    else \<lparr>result = Inr (fail ''Failed to edit (maybe too old or contains media)''),
                          stored = recentMessages st,
                          calls = [EditCall chatId msgId text]\<rparr>
                | Throws m \<Rightarrow>
                    \<lparr>result = Inr (fail (''Edit failed: '' @ m)),
                     stored = recentMessages st,
                     calls = [EditCall chatId msgId text]\<rparr>
                | ThrowsNullish \<Rightarrow>
                    \<lparr>result = Inl TypeError,
                     stored = recentMessages st,
                     calls = [EditCall chatId msgId text]\<rparr>)))"

text \<open>
  \<^verbatim>\<open>execute(args, chatId)\<close>: the empty-history check first, then the switch on
  \<^verbatim>\<open>args.action\<close> with its default branch.
\<close>

definition execute :: "bot_state \<Rightarrow> manage_args \<Rightarrow> chat_id \<Rightarrow> run" where
  "execute st args chatId =
     (let messages = (case recentMessages st chatId of None \<Rightarrow> [] | Some ms \<Rightarrow> ms) in
      if length messages = 0
      then \<lparr>result = Inr (fail ''No recent messages to manage''), stored = recentMessages st, calls = []\<rparr>
      else if action args = ''delete_last'' then delete_last st messages chatId
      else if action args = ''delete_by_index'' then delete_by_index st messages chatId (index args)
      else if action args = ''edit_last'' then edit_last st messages chatId (new_text args)
      else \<lparr>result = Inr (fail (''Unknown action: '' @ action args)),
            stored = recentMessages st, calls = []\<rparr>)"

section \<open>Web search\<close>

text \<open>\<^verbatim>\<open>interface SearchResult { title; url; content; date? }\<close>\<close>

record SearchResult =
  title :: string
  url :: string
  content :: string
  date :: "string option"

text \<open>
  \<^verbatim>\<open>searchZai\<close> and \<^verbatim>\<open>searchTavily\<close> are HTTP round trips; each takes the query and the
  API key and either returns the result list (\<^const>\<open>Inr\<close>) or raises an error
  (\<^const>\<open>Inl\<close> of its message). They are parameters of the model. The log records which
  provider was contacted, in order.
\<close>

type_synonym provider = "string \<Rightarrow> string \<Rightarrow> string + SearchResult list"

datatype provider_call =
    ZaiCall string string
  | TavilyCall string string

definition newline :: char where
  "newline = CHR 0x0A"

text \<open>\<^verbatim>\<open>Array.prototype.join\<close> on strings.\<close>

fun join :: "string \<Rightarrow> string list \<Rightarrow> string" where
  "join sep [] = []"
| "join sep [x] = x"
| "join sep (x # y # ys) = x @ sep @ join sep (y # ys)"

text \<open>The callback of \<^verbatim>\<open>results.map((r, i) => ...)\<close>, \<open>i\<close> the zero-based position.\<close>

definition render_result :: "nat \<Rightarrow> SearchResult \<Rightarrow> string" where
  "render_result i r =
     (let date_part = (case truthy_string (date r) of
                         None \<Rightarrow> []
                       | Some d \<Rightarrow> '' ('' @ d @ '')'')
      in ''['' @ show_int (int i + 1) @ ''] '' @ title r @ date_part @ [newline]
           @ url r @ [newline] @ take 400 (content r))"

text \<open>
  The tail of \<^verbatim>\<open>executeSearchWeb\<close> once the provider calls are over: an error raised by
  the last provider reaches the outer \<^verbatim>\<open>catch\<close>; an empty list is reported as such; a
  non-empty list is rendered.
\<close>

definition render_outcome :: "string + SearchResult list \<Rightarrow> tool_result" where
  "render_outcome outcome =
     (case outcome of
        Inl message \<Rightarrow> fail message
      | Inr results \<Rightarrow>
          if length results = 0 then succeed ''(no results)''
          else succeed (join [newline, newline]
                          (map (\<lambda>(i, r). render_result i r) (enumerate 0 results))))"

definition executeSearchWeb ::
  "provider \<Rightarrow> provider \<Rightarrow> string \<Rightarrow> string option \<Rightarrow> string option
     \<Rightarrow> tool_result \<times> provider_call list" where
  "executeSearchWeb searchZai searchTavily query zaiApiKey tavilyApiKey =
     (case truthy_string zaiApiKey of
        Some zkey \<Rightarrow>
          (case searchZai query zkey of
             Inr results \<Rightarrow> (render_outcome (Inr results), [ZaiCall query zkey])
           | Inl e \<Rightarrow>
               (case truthy_string tavilyApiKey of
                  Some tkey \<Rightarrow> (render_outcome (searchTavily query tkey),
                                 [ZaiCall query zkey, TavilyCall query tkey])
                | None \<Rightarrow> (render_outcome (Inl e), [ZaiCall query zkey])))
      | None \<Rightarrow>
          (case truthy_string tavilyApiKey of
             Some tkey \<Rightarrow> (render_outcome (searchTavily query tkey), [TavilyCall query tkey])
           | None \<Rightarrow> (fail ''No search API configured (ZAI_API_KEY or TAVILY_API_KEY)'', [])))"

section \<open>Properties of the recorder\<close>

lemma getRecentMessages_record:
  "getRecentMessages (recordBotMessage store chatId m) chatId =
     (if length (getRecentMessages store chatId) < MAX_STORED
      then getRecentMessages store chatId @ [m]
      else tl (getRecentMessages store chatId @ [m]))"
  by (simp add: getRecentMessages_def recordBotMessage_def Let_def split: option.splits)

lemma record_all_snoc:
  "record_all store chatId (ids @ [m]) = recordBotMessage (record_all store chatId ids) chatId m"
  by (simp add: record_all_def)

lemma record_all_window:
  assumes "length (getRecentMessages store chatId) \<le> MAX_STORED"
  shows "getRecentMessages (record_all store chatId ids) chatId =
           drop (length (getRecentMessages store chatId @ ids) - MAX_STORED)
                (getRecentMessages store chatId @ ids)"
proof (induction ids rule: rev_induct)
  case Nil
  from assms show ?case by (simp add: record_all_def)
next
  case (snoc m ids)
  let ?old = "getRecentMessages store chatId"
  let ?all = "?old @ ids"
  let ?k = "length ?all - MAX_STORED"
  have cur: "getRecentMessages (record_all store chatId ids) chatId = drop ?k ?all"
    using snoc.IH .
  show ?case
  proof (cases "length ?all < MAX_STORED")
    case True
    then show ?thesis
      by (simp add: record_all_snoc getRecentMessages_record cur)
  next
    case False
    then have len: "length (drop ?k ?all) = MAX_STORED" by simp
    have nonempty: "drop ?k ?all \<noteq> []"
      using len by (auto simp: MAX_STORED_def)
    have room: "Suc ?k \<le> length ?all"
      using False by (simp add: MAX_STORED_def)
    have "tl (drop ?k ?all @ [m]) = tl (drop ?k ?all) @ [m]"
      using nonempty by (cases "drop ?k ?all") simp_all
    also have "tl (drop ?k ?all) = drop (Suc ?k) ?all"
      by (simp only: drop_Suc tl_drop)
    also have "drop (Suc ?k) ?all @ [m] = drop (Suc ?k) (?all @ [m])"
      using room by (simp only: drop_append) simp
    finally have shifted: "tl (drop ?k ?all @ [m]) = drop (Suc ?k) (?all @ [m])" .
    have next_k: "length (?old @ ids @ [m]) - MAX_STORED = Suc ?k"
      using False by simp
    have "getRecentMessages (record_all store chatId (ids @ [m])) chatId = tl (drop ?k ?all @ [m])"
      using len by (simp only: record_all_snoc getRecentMessages_record cur) simp
    then show ?thesis
      by (simp only: shifted next_k append_assoc)
  qed
qed

text \<open>
  \<^bold>\<open>C1\<close> (FIFO eviction law). On a conversation key with no recorded history, after
  recording the identifiers \<open>ids\<close> one by one, the listed history has length
  \<open>min (length ids) 20\<close> and is the last \<open>min (length ids) 20\<close> identifiers of \<open>ids\<close>,
  in send order.
\<close>

theorem fifo_eviction_law:
  assumes "getRecentMessages store chatId = []"
  shows "length (getRecentMessages (record_all store chatId ids) chatId) = min (length ids) 20
       \<and> getRecentMessages (record_all store chatId ids) chatId
           = drop (length ids - min (length ids) 20) ids"
proof -
  have "getRecentMessages (record_all store chatId ids) chatId = drop (length ids - MAX_STORED) ids"
    using record_all_window [of store chatId ids] assms by simp
  moreover have "length ids - MAX_STORED = length ids - min (length ids) 20"
    by (simp add: MAX_STORED_def)
  ultimately show ?thesis by (auto simp: MAX_STORED_def)
qed

text \<open>The scenario of 21 sends into an empty conversation: 101 is evicted.\<close>

theorem fifo_eviction_law_witness:
  "getRecentMessages Map.empty 7 = []
   \<and> getRecentMessages
        (record_all Map.empty 7
           [101, 102, 103, 104, 105, 106, 107, 108, 109, 110, 111,
            112, 113, 114, 115, 116, 117, 118, 119, 120, 121]) 7
       = [102, 103, 104, 105, 106, 107, 108, 109, 110, 111,
          112, 113, 114, 115, 116, 117, 118, 119, 120, 121]"
  using fifo_eviction_law [of Map.empty 7
           "[101, 102, 103, 104, 105, 106, 107, 108, 109, 110, 111,
             112, 113, 114, 115, 116, 117, 118, 119, 120, 121]"]
  by (simp add: getRecentMessages_def)

section \<open>Properties of the message manager\<close>

lemma stored_history:
  "getRecentMessages s chatId = ms \<Longrightarrow> ms \<noteq> [] \<Longrightarrow> s chatId = Some ms"
  by (auto simp: getRecentMessages_def split: option.splits)

lemma execute_no_history:
  "getRecentMessages (recentMessages st) chatId = [] \<Longrightarrow>
   execute st args chatId =
     \<lparr>result = Inr (fail ''No recent messages to manage''), stored = recentMessages st, calls = []\<rparr>"
  by (auto simp: execute_def getRecentMessages_def split: option.splits)

lemma execute_dispatch:
  "recentMessages st chatId = Some ms \<Longrightarrow> ms \<noteq> [] \<Longrightarrow>
   execute st args chatId =
     (if action args = ''delete_last'' then delete_last st ms chatId
      else if action args = ''delete_by_index'' then delete_by_index st ms chatId (index args)
      else if action args = ''edit_last'' then edit_last st ms chatId (new_text args)
      else \<lparr>result = Inr (fail (''Unknown action: '' @ action args)),
            stored = recentMessages st, calls = []\<rparr>)"
  by (simp add: execute_def)

lemma delete_last_run:
  "deleteMessageCallback st = Some cb \<Longrightarrow>
   delete_last st ms chatId =
     (let t = ms ! (length ms - 1) in
      \<lparr>result = (case cb chatId t of
                    Returns ok \<Rightarrow>
                      if ok then Inr (succeed ''Deleted last message'')
                      else Inr (fail ''Failed to delete (maybe already deleted or too old)'')
                  | Throws m \<Rightarrow> Inr (fail (''Delete failed: '' @ m))
                  | ThrowsNullish \<Rightarrow> Inl TypeError),
       stored = (if cb chatId t = Returns True then (recentMessages st)(chatId \<mapsto> butlast ms)
                 else recentMessages st),
       calls = [DeleteCall chatId t]\<rparr>)"
  by (simp add: delete_last_def Let_def split: gw_outcome.splits)

lemma delete_by_index_run:
  "deleteMessageCallback st = Some cb \<Longrightarrow> k < length ms \<Longrightarrow>
   idx = Some (int k) \<or> idx = Some (int k - int (length ms)) \<or> idx = None \<and> k = length ms - 1 \<Longrightarrow>
   delete_by_index st ms chatId idx =
      \<lparr>result = (case cb chatId (ms ! k) of
                    Returns ok \<Rightarrow>
                      if ok then Inr (succeed (''Deleted message at index '' @ show_int (int k)))
                      else Inr (fail ''Failed to delete'')
                  | Throws m \<Rightarrow> Inr (fail (''Delete failed: '' @ m))
                  | ThrowsNullish \<Rightarrow> Inl TypeError),
       stored = (if cb chatId (ms ! k) = Returns True
                 then (recentMessages st)(chatId \<mapsto> take k ms @ drop (Suc k) ms)
                 else recentMessages st),
       calls = [DeleteCall chatId (ms ! k)]\<rparr>"
  apply (elim disjE conjE)
    apply (simp add: delete_by_index_def Let_def split: gw_outcome.splits)
   apply (simp add: delete_by_index_def Let_def split: gw_outcome.splits)
  apply (cases ms rule: rev_cases)
  apply (simp_all add: delete_by_index_def Let_def split: gw_outcome.splits)
  done

lemma delete_by_index_out_of_range:
  "deleteMessageCallback st = Some cb \<Longrightarrow>
   idx \<ge> int (length ms) \<or> idx < - int (length ms) \<Longrightarrow>
   delete_by_index st ms chatId (Some idx) =
     \<lparr>result = Inr (fail (''Invalid index. Have '' @ show_int (int (length ms))
                       @ '' messages (0-'' @ show_int (int (length ms) - 1) @ '')'')),
      stored = recentMessages st, calls = []\<rparr>"
  by (auto simp: delete_by_index_def Let_def)

text \<open>
  \<^bold>\<open>C2\<close> (as amended). On a non-empty history \<open>ms\<close> with the delete capability configured,
  \<^verbatim>\<open>delete_by_index\<close> with an integer index \<open>idx\<close>: when \<open>idx \<ge> length ms\<close> or
  \<open>idx < - length ms\<close> the action fails with the invalid-index error, whose message gives
  the number of messages and the bounds \<open>0\<close> to \<open>length ms - 1\<close>, makes no gateway call and
  leaves the history as it was; when \<open>0 \<le> idx < length ms\<close> the gateway is called on the
  record at position \<open>idx\<close>; when \<open>- length ms \<le> idx < 0\<close> it is called on the record at
  position \<open>length ms + idx\<close>.
\<close>

theorem index_resolution:
  assumes "getRecentMessages (recentMessages st) chatId = ms" and "ms \<noteq> []"
    and "deleteMessageCallback st = Some cb"
    and "action args = ''delete_by_index''" and "index args = Some idx"
  shows "((idx \<ge> int (length ms) \<or> idx < - int (length ms)) \<longrightarrow>
            result (execute st args chatId)
              = Inr \<lparr>success = False, output' = None,
                 error = Some (''Invalid index. Have '' @ show_int (int (length ms))
                               @ '' messages (0-'' @ show_int (int (length ms) - 1) @ '')'')\<rparr>
          \<and> calls (execute st args chatId) = []
          \<and> stored (execute st args chatId) = recentMessages st)
       \<and> ((0 \<le> idx \<and> idx < int (length ms)) \<longrightarrow>
            calls (execute st args chatId) = [DeleteCall chatId (ms ! nat idx)])
       \<and> ((- int (length ms) \<le> idx \<and> idx < 0) \<longrightarrow>
            calls (execute st args chatId) = [DeleteCall chatId (ms ! nat (int (length ms) + idx))])"
proof -
  have hist: "recentMessages st chatId = Some ms"
    using assms(1,2) by (rule stored_history)
  have run: "execute st args chatId = delete_by_index st ms chatId (Some idx)"
    using assms(4,5) by (simp add: execute_dispatch [OF hist assms(2)])
  have outside: "idx \<ge> int (length ms) \<or> idx < - int (length ms) \<Longrightarrow>
      delete_by_index st ms chatId (Some idx) =
        \<lparr>result = Inr (fail (''Invalid index. Have '' @ show_int (int (length ms))
                       @ '' messages (0-'' @ show_int (int (length ms) - 1) @ '')'')),
         stored = recentMessages st, calls = []\<rparr>"
    using assms(3) by (rule delete_by_index_out_of_range)
  have forward: "calls (delete_by_index st ms chatId (Some idx)) = [DeleteCall chatId (ms ! nat idx)]"
    if "0 \<le> idx" "idx < int (length ms)"
    using that delete_by_index_run [OF assms(3), of "nat idx" ms "Some idx" chatId] by simp
  have backward: "calls (delete_by_index st ms chatId (Some idx))
                    = [DeleteCall chatId (ms ! nat (int (length ms) + idx))]"
    if "- int (length ms) \<le> idx" "idx < 0"
    using that delete_by_index_run [OF assms(3), of "nat (int (length ms) + idx)" ms "Some idx" chatId]
    by simp
  show ?thesis
    using outside forward backward by (simp add: run fail_def)
qed

text \<open>The scenario: history 201, 202, 203 and index 5; the error mentions the range 0-2.\<close>

theorem index_resolution_witness:
  "getRecentMessages [5 \<mapsto> [201, 202, 203]] 5 = [201, 202, 203]
   \<and> result (execute \<lparr>recentMessages = [5 \<mapsto> [201, 202, 203]],
                       deleteMessageCallback = Some (\<lambda>c m. Returns True),
                       editMessageCallback = None\<rparr>
               \<lparr>action = ''delete_by_index'', index = Some 5, new_text = None\<rparr> 5)
       = Inr \<lparr>success = False, output' = None,
          error = Some ''Invalid index. Have 3 messages (0-2)''\<rparr>
   \<and> calls (execute \<lparr>recentMessages = [5 \<mapsto> [201, 202, 203]],
                       deleteMessageCallback = Some (\<lambda>c m. Returns True),
                       editMessageCallback = None\<rparr>
               \<lparr>action = ''delete_by_index'', index = Some 5, new_text = None\<rparr> 5) = []"
  using index_resolution [of "\<lparr>recentMessages = [5 \<mapsto> [201, 202, 203]],
                       deleteMessageCallback = Some (\<lambda>c m. Returns True),
                       editMessageCallback = None\<rparr>" 5 "[201, 202, 203]" "\<lambda>c m. Returns True"
                       "\<lparr>action = ''delete_by_index'', index = Some 5, new_text = None\<rparr>" 5]
  by (simp add: getRecentMessages_def show_int_def show_nat.simps digit_char_def)

text \<open>
  Without those two preconditions the out-of-range index is not what is reported: with no
  delete capability configured, index 5 on a history of three (\<open>5 \<ge> 3\<close>) fails with
  \<^verbatim>\<open>Delete not configured\<close>; on an empty history, index 0 (\<open>0 \<ge> 0\<close>) fails with
  \<^verbatim>\<open>No recent messages to manage\<close>. Both checks come before the index is looked at.
\<close>

theorem index_resolution_counterexample:
  "int (length (getRecentMessages [5 \<mapsto> [201, 202, 203]] 5)) \<le> 5
   \<and> result (execute \<lparr>recentMessages = [5 \<mapsto> [201, 202, 203]],
                       deleteMessageCallback = None, editMessageCallback = None\<rparr>
               \<lparr>action = ''delete_by_index'', index = Some 5, new_text = None\<rparr> 5)
       = Inr \<lparr>success = False, output' = None, error = Some ''Delete not configured''\<rparr>
   \<and> result (execute \<lparr>recentMessages = [5 \<mapsto> [201, 202, 203]],
                       deleteMessageCallback = None, editMessageCallback = None\<rparr>
               \<lparr>action = ''delete_by_index'', index = Some 5, new_text = None\<rparr> 5)
       \<noteq> Inr \<lparr>success = False, output' = None,
              error = Some ''Invalid index. Have 3 messages (0-2)''\<rparr>
   \<and> int (length (getRecentMessages Map.empty 5)) \<le> 0
   \<and> result (execute \<lparr>recentMessages = Map.empty,
                       deleteMessageCallback = Some (\<lambda>c m. Returns True),
                       editMessageCallback = None\<rparr>
               \<lparr>action = ''delete_by_index'', index = Some 0, new_text = None\<rparr> 5)
       = Inr \<lparr>success = False, output' = None, error = Some ''No recent messages to manage''\<rparr>"
  by (simp add: getRecentMessages_def execute_def delete_by_index_def fail_def)

lemma delete_last_unchanged_or_committed:
  "stored (delete_last st ms chatId) \<noteq> recentMessages st \<Longrightarrow>
   \<exists>cb t. deleteMessageCallback st = Some cb
         \<and> calls (delete_last st ms chatId) = [DeleteCall chatId t] \<and> cb chatId t = Returns True"
  by (auto simp: delete_last_def Let_def split: option.splits gw_outcome.splits if_splits)

lemma delete_by_index_unchanged_or_committed:
  "stored (delete_by_index st ms chatId idx) \<noteq> recentMessages st \<Longrightarrow>
   \<exists>cb t. deleteMessageCallback st = Some cb
         \<and> calls (delete_by_index st ms chatId idx) = [DeleteCall chatId t] \<and> cb chatId t = Returns True"
  by (auto simp: delete_by_index_def Let_def split: option.splits gw_outcome.splits if_splits)

lemma edit_last_stored:
  "stored (edit_last st ms chatId new) = recentMessages st"
  by (simp add: edit_last_def Let_def split: option.splits gw_outcome.splits)

lemma execute_unchanged_or_committed:
  assumes "stored (execute st args chatId) \<noteq> recentMessages st"
  shows "\<exists>cb t. deleteMessageCallback st = Some cb
         \<and> calls (execute st args chatId) = [DeleteCall chatId t] \<and> cb chatId t = Returns True"
proof (cases "getRecentMessages (recentMessages st) chatId = []")
  case True
  with assms show ?thesis by (simp add: execute_no_history)
next
  case False
  then obtain ms where hist: "recentMessages st chatId = Some ms" and ne: "ms \<noteq> []"
    using stored_history by blast
  show ?thesis
    using assms delete_last_unchanged_or_committed [of st ms chatId]
      delete_by_index_unchanged_or_committed [of st ms chatId "index args"]
    by (simp add: execute_dispatch [OF hist ne] edit_last_stored split: if_splits)
qed

text \<open>
  What a delete does with the gateway's answer. With the delete capability configured,
  \<^verbatim>\<open>delete_last\<close> (where \<open>k\<close> is the last position) and \<^verbatim>\<open>delete_by_index\<close> (with index
  \<open>k\<close>, with the negative index \<open>k - length ms\<close>, or with no index and \<open>k\<close> the last
  position) call the gateway once, on the record at position \<open>k\<close>. If that call returns
  true, the action succeeds and the history becomes the old one without position \<open>k\<close>, the
  rest in the same order. In every other case the history map is unchanged; a failure
  result is returned when the call returns false or raises a value whose message can be
  read, and the \<^verbatim>\<open>TypeError\<close> of the handler escapes when it rejects with \<^verbatim>\<open>null\<close> or
  \<^verbatim>\<open>undefined\<close>.
\<close>

lemma delete_outcome:
  assumes cb: "deleteMessageCallback st = Some cb"
    and got: "getRecentMessages (recentMessages st) chatId = ms"
    and k: "k < length ms"
    and target: "action args = ''delete_last'' \<and> k = length ms - 1
          \<or> action args = ''delete_by_index''
            \<and> (index args = Some (int k) \<or> index args = Some (int k - int (length ms))
                \<or> index args = None \<and> k = length ms - 1)"
  shows "calls (execute st args chatId) = [DeleteCall chatId (ms ! k)]"
    and "stored (execute st args chatId)
           = (if cb chatId (ms ! k) = Returns True
              then (recentMessages st)(chatId \<mapsto> take k ms @ drop (Suc k) ms)
              else recentMessages st)"
    and "cb chatId (ms ! k) = Returns True \<Longrightarrow>
           \<exists>r. result (execute st args chatId) = Inr r \<and> success r"
    and "cb chatId (ms ! k) = Returns False \<or> cb chatId (ms ! k) = Throws m \<Longrightarrow>
           \<exists>r. result (execute st args chatId) = Inr r \<and> \<not> success r \<and> error r \<noteq> None"
    and "cb chatId (ms ! k) = ThrowsNullish \<Longrightarrow> result (execute st args chatId) = Inl TypeError"
proof -
  from k have ne: "ms \<noteq> []" by auto
  have hist: "recentMessages st chatId = Some ms"
    using got ne by (rule stored_history)
  have butlast_eq: "butlast ms = take (length ms - 1) ms @ drop (Suc (length ms - 1)) ms"
    using ne by (simp add: butlast_conv_take)
  from target consider
      (newest) "action args = ''delete_last''" "k = length ms - 1"
    | (at) "action args = ''delete_by_index''"
        "index args = Some (int k) \<or> index args = Some (int k - int (length ms))
           \<or> index args = None \<and> k = length ms - 1"
    by blast
  then have facts:
    "calls (execute st args chatId) = [DeleteCall chatId (ms ! k)]
     \<and> stored (execute st args chatId)
         = (if cb chatId (ms ! k) = Returns True
            then (recentMessages st)(chatId \<mapsto> take k ms @ drop (Suc k) ms)
            else recentMessages st)
     \<and> (cb chatId (ms ! k) = Returns True \<longrightarrow>
          (\<exists>r. result (execute st args chatId) = Inr r \<and> success r))
     \<and> (cb chatId (ms ! k) = Returns False \<or> cb chatId (ms ! k) = Throws m \<longrightarrow>
          (\<exists>r. result (execute st args chatId) = Inr r \<and> \<not> success r \<and> error r \<noteq> None))
     \<and> (cb chatId (ms ! k) = ThrowsNullish \<longrightarrow> result (execute st args chatId) = Inl TypeError)"
  proof cases
    case newest
    then show ?thesis
      using butlast_eq
      by (auto simp add: execute_dispatch [OF hist ne] delete_last_run [OF cb] Let_def
            succeed_def fail_def split: gw_outcome.splits)
  next
    case at
    then have "execute st args chatId = delete_by_index st ms chatId (index args)"
      by (simp add: execute_dispatch [OF hist ne])
    then show ?thesis
      using at(2) delete_by_index_run [OF cb k, of "index args" chatId]
      by (auto simp add: succeed_def fail_def split: gw_outcome.splits)
  qed
  show "calls (execute st args chatId) = [DeleteCall chatId (ms ! k)]"
    using facts by simp
  show "stored (execute st args chatId)
           = (if cb chatId (ms ! k) = Returns True
              then (recentMessages st)(chatId \<mapsto> take k ms @ drop (Suc k) ms)
              else recentMessages st)"
    using facts by simp
  show "\<exists>r. result (execute st args chatId) = Inr r \<and> success r"
    if "cb chatId (ms ! k) = Returns True"
    using facts that by simp
  show "\<exists>r. result (execute st args chatId) = Inr r \<and> \<not> success r \<and> error r \<noteq> None"
    if "cb chatId (ms ! k) = Returns False \<or> cb chatId (ms ! k) = Throws m"
    using facts that by blast
  show "result (execute st args chatId) = Inl TypeError"
    if "cb chatId (ms ! k) = ThrowsNullish"
    using facts that by simp
qed

text \<open>
  \<^bold>\<open>C3\<close>. A delete gateway that raises is to leave the history unchanged and have a
  failure result reported. With history 201, 202, 203 and a delete gateway that rejects
  with \<^verbatim>\<open>undefined\<close>, \<^verbatim>\<open>delete_last\<close> and \<^verbatim>\<open>delete_by_index(0)\<close> each call the gateway
  on their target and leave the history unchanged, but return no result at all: the
  \<^verbatim>\<open>catch\<close> handler raises on \<^verbatim>\<open>e.message\<close> and \<^verbatim>\<open>execute\<close> rejects.
\<close>

theorem delete_rejected_nullish_reports_nothing:
  "execute \<lparr>recentMessages = [5 \<mapsto> [201, 202, 203]],
             deleteMessageCallback = Some (\<lambda>c m. ThrowsNullish),
             editMessageCallback = None\<rparr>
     \<lparr>action = ''delete_last'', index = None, new_text = None\<rparr> 5
     = \<lparr>result = Inl TypeError, stored = [5 \<mapsto> [201, 202, 203]],
        calls = [DeleteCall 5 203]\<rparr>
   \<and> execute \<lparr>recentMessages = [5 \<mapsto> [201, 202, 203]],
               deleteMessageCallback = Some (\<lambda>c m. ThrowsNullish),
               editMessageCallback = None\<rparr>
       \<lparr>action = ''delete_by_index'', index = Some 0, new_text = None\<rparr> 5
     = \<lparr>result = Inl TypeError, stored = [5 \<mapsto> [201, 202, 203]],
        calls = [DeleteCall 5 201]\<rparr>"
  by (simp add: execute_def delete_last_def delete_by_index_def)

text \<open>
  \<^bold>\<open>C4\<close> (negative-index equivalence). In any state, \<^verbatim>\<open>delete_by_index\<close> with index \<open>-1\<close>
  and \<^verbatim>\<open>delete_last\<close> make the same gateway calls (the same target), report the same
  success flag (or let the same error escape) and leave the same history map; on a non-empty history with the delete
  capability configured that target is the last element.
\<close>

theorem newest_by_index_is_delete_last:
  "calls (execute st \<lparr>action = ''delete_by_index'', index = Some (- 1), new_text = t\<rparr> chatId)
     = calls (execute st \<lparr>action = ''delete_last'', index = i, new_text = t'\<rparr> chatId)
   \<and> stored (execute st \<lparr>action = ''delete_by_index'', index = Some (- 1), new_text = t\<rparr> chatId)
     = stored (execute st \<lparr>action = ''delete_last'', index = i, new_text = t'\<rparr> chatId)
   \<and> map_sum id success
        (result (execute st \<lparr>action = ''delete_by_index'', index = Some (- 1), new_text = t\<rparr> chatId))
     = map_sum id success
        (result (execute st \<lparr>action = ''delete_last'', index = i, new_text = t'\<rparr> chatId))
   \<and> (deleteMessageCallback st = Some cb \<and> getRecentMessages (recentMessages st) chatId = ms
        \<and> ms \<noteq> [] \<longrightarrow>
      calls (execute st \<lparr>action = ''delete_last'', index = i, new_text = t'\<rparr> chatId)
        = [DeleteCall chatId (last ms)])"
proof (cases "getRecentMessages (recentMessages st) chatId = []")
  case True
  then show ?thesis by (simp add: execute_no_history)
next
  case False
  then obtain hs where hist: "recentMessages st chatId = Some hs" and ne: "hs \<noteq> []"
    using stored_history by blast
  have got: "getRecentMessages (recentMessages st) chatId = hs"
    using hist by (simp add: getRecentMessages_def)
  have pos: "length hs - 1 < length hs" using ne by simp
  show ?thesis
  proof (cases "deleteMessageCallback st")
    case None
    then show ?thesis
      by (simp add: execute_dispatch [OF hist ne] delete_last_def delete_by_index_def)
  next
    case (Some g)
    have "int (length hs - 1) - int (length hs) = - 1"
      using ne by (simp add: of_nat_diff Suc_leI)
    then have by_index: "delete_by_index st hs chatId (Some (- 1)) =
       \<lparr>result = (case g chatId (hs ! (length hs - 1)) of
                    Returns ok \<Rightarrow>
                      if ok
                      then Inr (succeed (''Deleted message at index ''
                                          @ show_int (int (length hs - 1))))
                      else Inr (fail ''Failed to delete'')
                  | Throws m \<Rightarrow> Inr (fail (''Delete failed: '' @ m))
                  | ThrowsNullish \<Rightarrow> Inl TypeError),
        stored = (if g chatId (hs ! (length hs - 1)) = Returns True
                 then (recentMessages st)(chatId \<mapsto> take (length hs - 1) hs @ drop (Suc (length hs - 1)) hs)
                 else recentMessages st),
        calls = [DeleteCall chatId (hs ! (length hs - 1))]\<rparr>"
      using delete_by_index_run [OF Some pos, of "Some (- 1)" chatId] by simp
    show ?thesis
      using Some got ne
      by (simp add: execute_dispatch [OF hist ne] by_index delete_last_run [OF Some] Let_def
            last_conv_nth butlast_conv_take succeed_def fail_def split: gw_outcome.splits)
  qed
qed

theorem newest_by_index_is_delete_last_witness:
  "calls (execute \<lparr>recentMessages = [5 \<mapsto> [201, 202, 203]],
                    deleteMessageCallback = Some (\<lambda>c m. Returns True),
                    editMessageCallback = None\<rparr>
            \<lparr>action = ''delete_by_index'', index = Some (- 1), new_text = None\<rparr> 5)
     = [DeleteCall 5 203]
   \<and> stored (execute \<lparr>recentMessages = [5 \<mapsto> [201, 202, 203]],
                    deleteMessageCallback = Some (\<lambda>c m. Returns True),
                    editMessageCallback = None\<rparr>
            \<lparr>action = ''delete_by_index'', index = Some (- 1), new_text = None\<rparr> 5)
     = stored (execute \<lparr>recentMessages = [5 \<mapsto> [201, 202, 203]],
                    deleteMessageCallback = Some (\<lambda>c m. Returns True),
                    editMessageCallback = None\<rparr>
            \<lparr>action = ''delete_last'', index = None, new_text = None\<rparr> 5)"
  using newest_by_index_is_delete_last
      [of "\<lparr>recentMessages = [5 \<mapsto> [201, 202, 203]],
            deleteMessageCallback = Some (\<lambda>c m. Returns True),
            editMessageCallback = None\<rparr>" None 5 None None
          "\<lambda>c m. Returns True" "[201, 202, 203]"]
  by (simp add: getRecentMessages_def)

text \<open>
  \<^bold>\<open>C5\<close>. With an empty history for the conversation (no entry, or an empty one), every
  action (\<^verbatim>\<open>delete_last\<close>, \<^verbatim>\<open>delete_by_index\<close>, \<^verbatim>\<open>edit_last\<close> or any other action
  string) fails with \<^verbatim>\<open>No recent messages to manage\<close>, calls no gateway and leaves the
  map alone, whether or not the callbacks are configured: the check comes first.
\<close>

theorem no_history_first:
  assumes "getRecentMessages (recentMessages st) chatId = []"
  shows "result (execute st args chatId)
           = Inr \<lparr>success = False, output' = None, error = Some ''No recent messages to manage''\<rparr>
       \<and> calls (execute st args chatId) = []
       \<and> stored (execute st args chatId) = recentMessages st"
  using assms by (simp add: execute_no_history fail_def)

text \<open>No callbacks and no entry; and both callbacks with an empty entry.\<close>

theorem no_history_first_witness:
  "getRecentMessages Map.empty 5 = []
   \<and> result (execute \<lparr>recentMessages = Map.empty, deleteMessageCallback = None,
                       editMessageCallback = None\<rparr>
               \<lparr>action = ''delete_last'', index = None, new_text = None\<rparr> 5)
       = Inr \<lparr>success = False, output' = None, error = Some ''No recent messages to manage''\<rparr>
   \<and> result (execute \<lparr>recentMessages = [5 \<mapsto> []],
                       deleteMessageCallback = Some (\<lambda>c m. Returns True),
                       editMessageCallback = Some (\<lambda>c m t. Returns True)\<rparr>
               \<lparr>action = ''edit_last'', index = None, new_text = Some ''fixed''\<rparr> 5)
       = Inr \<lparr>success = False, output' = None, error = Some ''No recent messages to manage''\<rparr>
   \<and> calls (execute \<lparr>recentMessages = [5 \<mapsto> []],
                       deleteMessageCallback = Some (\<lambda>c m. Returns True),
                       editMessageCallback = Some (\<lambda>c m t. Returns True)\<rparr>
               \<lparr>action = ''edit_last'', index = None, new_text = Some ''fixed''\<rparr> 5) = []"
  using
    no_history_first [of "\<lparr>recentMessages = Map.empty, deleteMessageCallback = None,
                          editMessageCallback = None\<rparr>" 5
                         "\<lparr>action = ''delete_last'', index = None, new_text = None\<rparr>"]
    no_history_first [of "\<lparr>recentMessages = [5 \<mapsto> []],
                          deleteMessageCallback = Some (\<lambda>c m. Returns True),
                          editMessageCallback = Some (\<lambda>c m t. Returns True)\<rparr>" 5
                         "\<lparr>action = ''edit_last'', index = None, new_text = Some ''fixed''\<rparr>"]
  by (simp add: getRecentMessages_def)

text \<open>
  \<^bold>\<open>C6\<close>. \<^verbatim>\<open>edit_last\<close> never changes the history map, whatever the edit gateway does:
  the stored identifiers of the conversation are the same before and after.
\<close>

theorem edit_never_mutates:
  assumes "action args = ''edit_last''"
  shows "stored (execute st args chatId) = recentMessages st
       \<and> getRecentMessages (stored (execute st args chatId)) chatId
           = getRecentMessages (recentMessages st) chatId"
proof -
  have "stored (execute st args chatId) = recentMessages st"
  proof (cases "getRecentMessages (recentMessages st) chatId = []")
    case True
    then show ?thesis by (simp add: execute_no_history)
  next
    case False
    then obtain ms where hist: "recentMessages st chatId = Some ms" and ne: "ms \<noteq> []"
      using stored_history by blast
    show ?thesis
      using assms by (simp add: execute_dispatch [OF hist ne] edit_last_stored)
  qed
  then show ?thesis by simp
qed

text \<open>A confirmed edit of the newest of 201, 202: the gateway is called, the history stays.\<close>

theorem edit_never_mutates_witness:
  "calls (execute \<lparr>recentMessages = [5 \<mapsto> [201, 202]], deleteMessageCallback = None,
                    editMessageCallback = Some (\<lambda>c m t. Returns True)\<rparr>
            \<lparr>action = ''edit_last'', index = None, new_text = Some ''fixed''\<rparr> 5)
     = [EditCall 5 202 ''fixed'']
   \<and> stored (execute \<lparr>recentMessages = [5 \<mapsto> [201, 202]], deleteMessageCallback = None,
                    editMessageCallback = Some (\<lambda>c m t. Returns True)\<rparr>
            \<lparr>action = ''edit_last'', index = None, new_text = Some ''fixed''\<rparr> 5)
     = [5 \<mapsto> [201, 202]]"
  using edit_never_mutates [of "\<lparr>action = ''edit_last'', index = None, new_text = Some ''fixed''\<rparr>"
          "\<lparr>recentMessages = [5 \<mapsto> [201, 202]], deleteMessageCallback = None,
            editMessageCallback = Some (\<lambda>c m t. Returns True)\<rparr>" 5]
  by (simp add: execute_def edit_last_def truthy_string_def)

text \<open>
  \<^bold>\<open>C7\<close> (as amended). \<^verbatim>\<open>edit_last\<close> on a non-empty history with \<^verbatim>\<open>new_text\<close> missing or
  empty never calls the edit gateway and fails, leaving the history alone. When the edit
  capability is configured the error is \<^verbatim>\<open>new_text required for edit\<close>; when it is not,
  the error is \<^verbatim>\<open>Edit not configured\<close>, because that check comes first.
\<close>

theorem edit_requires_text:
  assumes "getRecentMessages (recentMessages st) chatId \<noteq> []"
    and "action args = ''edit_last''"
    and "new_text args = None \<or> new_text args = Some []"
  shows "calls (execute st args chatId) = []
       \<and> stored (execute st args chatId) = recentMessages st
       \<and> result (execute st args chatId)
           = Inr \<lparr>success = False, output' = None,
              error = Some (case editMessageCallback st of
                              None \<Rightarrow> ''Edit not configured''
                            | Some cb \<Rightarrow> ''new_text required for edit'')\<rparr>"
proof -
  from assms(1) obtain ms where hist: "recentMessages st chatId = Some ms" and ne: "ms \<noteq> []"
    using stored_history by blast
  have "truthy_string (new_text args) = None"
    using assms(3) by (auto simp: truthy_string_def)
  then show ?thesis
    using assms(2)
    by (simp add: execute_dispatch [OF hist ne] edit_last_def fail_def split: option.splits)
qed

text \<open>An empty replacement text with the edit capability configured.\<close>

theorem edit_requires_text_witness:
  "getRecentMessages [5 \<mapsto> [201, 202]] 5 \<noteq> []
   \<and> calls (execute \<lparr>recentMessages = [5 \<mapsto> [201, 202]], deleteMessageCallback = None,
                    editMessageCallback = Some (\<lambda>c m t. Returns True)\<rparr>
            \<lparr>action = ''edit_last'', index = None, new_text = Some ''''\<rparr> 5) = []
   \<and> result (execute \<lparr>recentMessages = [5 \<mapsto> [201, 202]], deleteMessageCallback = None,
                    editMessageCallback = Some (\<lambda>c m t. Returns True)\<rparr>
            \<lparr>action = ''edit_last'', index = None, new_text = Some ''''\<rparr> 5)
       = Inr \<lparr>success = False, output' = None, error = Some ''new_text required for edit''\<rparr>"
  using edit_requires_text [of "\<lparr>recentMessages = [5 \<mapsto> [201, 202]], deleteMessageCallback = None,
                    editMessageCallback = Some (\<lambda>c m t. Returns True)\<rparr>" 5
            "\<lparr>action = ''edit_last'', index = None, new_text = Some ''''\<rparr>"]
  by (simp add: getRecentMessages_def)

text \<open>
  A missing \<^verbatim>\<open>new_text\<close> on a non-empty history, with no edit capability configured: the
  failure is \<^verbatim>\<open>Edit not configured\<close>, not the missing-content error.
\<close>

theorem edit_requires_text_counterexample:
  "getRecentMessages [5 \<mapsto> [201, 202]] 5 \<noteq> []
   \<and> result (execute \<lparr>recentMessages = [5 \<mapsto> [201, 202]], deleteMessageCallback = None,
                       editMessageCallback = None\<rparr>
               \<lparr>action = ''edit_last'', index = None, new_text = None\<rparr> 5)
       = Inr \<lparr>success = False, output' = None, error = Some ''Edit not configured''\<rparr>
   \<and> result (execute \<lparr>recentMessages = [5 \<mapsto> [201, 202]], deleteMessageCallback = None,
                       editMessageCallback = None\<rparr>
               \<lparr>action = ''edit_last'', index = None, new_text = None\<rparr> 5)
       \<noteq> Inr \<lparr>success = False, output' = None,
              error = Some ''new_text required for edit''\<rparr>"
  by (simp add: getRecentMessages_def execute_def edit_last_def fail_def)

lemma delete_last_shape:
  "(\<exists>msg. result (delete_last st ms chatId) = Inr (succeed msg)
        \<or> result (delete_last st ms chatId) = Inr (fail msg))
   \<or> (\<exists>cb t. deleteMessageCallback st = Some cb
          \<and> calls (delete_last st ms chatId) = [DeleteCall chatId t]
          \<and> cb chatId t = ThrowsNullish
          \<and> result (delete_last st ms chatId) = Inl TypeError)"
  by (auto simp: delete_last_def Let_def split: option.splits gw_outcome.splits)

lemma delete_by_index_shape:
  "(\<exists>msg. result (delete_by_index st ms chatId idx) = Inr (succeed msg)
        \<or> result (delete_by_index st ms chatId idx) = Inr (fail msg))
   \<or> (\<exists>cb t. deleteMessageCallback st = Some cb
          \<and> calls (delete_by_index st ms chatId idx) = [DeleteCall chatId t]
          \<and> cb chatId t = ThrowsNullish
          \<and> result (delete_by_index st ms chatId idx) = Inl TypeError)"
  by (auto simp: delete_by_index_def Let_def split: option.splits gw_outcome.splits)

lemma edit_last_shape:
  "(\<exists>msg. result (edit_last st ms chatId new) = Inr (succeed msg)
        \<or> result (edit_last st ms chatId new) = Inr (fail msg))
   \<or> (\<exists>cb t content. editMessageCallback st = Some cb
          \<and> calls (edit_last st ms chatId new) = [EditCall chatId t content]
          \<and> cb chatId t content = ThrowsNullish
          \<and> result (edit_last st ms chatId new) = Inl TypeError)"
  by (auto simp: edit_last_def Let_def split: option.splits gw_outcome.splits)

text \<open>
  The shape of what \<^verbatim>\<open>execute\<close> gives back. Either it returns a result record with
  exactly one of output and error, matching the success flag; or the one gateway call it
  made rejected with \<^verbatim>\<open>null\<close> or \<^verbatim>\<open>undefined\<close> and the handler's \<^verbatim>\<open>TypeError\<close> escapes.
  There is no third case.
\<close>

lemma execute_shape:
  "(\<exists>msg. result (execute st args chatId) = Inr (succeed msg)
        \<or> result (execute st args chatId) = Inr (fail msg))
   \<or> result (execute st args chatId) = Inl TypeError
     \<and> ((\<exists>cb t. deleteMessageCallback st = Some cb
            \<and> calls (execute st args chatId) = [DeleteCall chatId t]
            \<and> cb chatId t = ThrowsNullish)
        \<or> (\<exists>cb t content. editMessageCallback st = Some cb
            \<and> calls (execute st args chatId) = [EditCall chatId t content]
            \<and> cb chatId t content = ThrowsNullish))"
proof (cases "getRecentMessages (recentMessages st) chatId = []")
  case True
  then show ?thesis by (auto simp: execute_no_history)
next
  case False
  then obtain ms where hist: "recentMessages st chatId = Some ms" and ne: "ms \<noteq> []"
    using stored_history by blast
  note dispatch = execute_dispatch [OF hist ne, of args]
  show ?thesis
  proof (cases "action args = ''delete_last''")
    case True
    then have "execute st args chatId = delete_last st ms chatId"
      by (simp add: dispatch)
    then show ?thesis
      using delete_last_shape [of st ms chatId] by auto
  next
    case not_last: False
    show ?thesis
    proof (cases "action args = ''delete_by_index''")
      case True
      then have "execute st args chatId = delete_by_index st ms chatId (index args)"
        by (simp add: dispatch)
      then show ?thesis
        using delete_by_index_shape [of st ms chatId "index args"] by auto
    next
      case not_at: False
      show ?thesis
      proof (cases "action args = ''edit_last''")
        case True
        then have "execute st args chatId = edit_last st ms chatId (new_text args)"
          by (simp add: dispatch)
        then show ?thesis
          using edit_last_shape [of st ms chatId "new_text args"] by auto
      next
        case False
        with not_last not_at
        have "result (execute st args chatId) = Inr (fail (''Unknown action: '' @ action args))"
          by (simp add: dispatch)
        then show ?thesis by blast
      qed
    qed
  qed
qed

lemma returned_result_well_formed:
  assumes "result (execute st args chatId) = Inr r"
  shows "(success r \<longrightarrow> output' r \<noteq> None \<and> error r = None)
       \<and> (\<not> success r \<longrightarrow> error r \<noteq> None \<and> output' r = None)"
proof -
  from assms obtain msg where "r = succeed msg \<or> r = fail msg"
    using execute_shape [of st args chatId] by auto
  then show ?thesis
    by (auto simp: succeed_def fail_def)
qed

text \<open>
  \<^bold>\<open>C8\<close>. No invocation is to escape as an unhandled fault, whatever the gateway does.
  With history 201, 202 and an edit gateway that rejects with \<^verbatim>\<open>undefined\<close>,
  \<^verbatim>\<open>edit_last\<close> with a new text calls the gateway, the \<^verbatim>\<open>catch\<close> handler raises a
  \<^verbatim>\<open>TypeError\<close> on \<^verbatim>\<open>e.message\<close>, and \<^verbatim>\<open>execute\<close> rejects with it: no result record
  with an error field is returned. The history is as before.
\<close>

theorem edit_rejected_nullish_escapes:
  "execute \<lparr>recentMessages = [5 \<mapsto> [201, 202]], deleteMessageCallback = None,
             editMessageCallback = Some (\<lambda>c m t. ThrowsNullish)\<rparr>
     \<lparr>action = ''edit_last'', index = None, new_text = Some ''fixed''\<rparr> 5
   = \<lparr>result = Inl TypeError, stored = [5 \<mapsto> [201, 202]],
      calls = [EditCall 5 202 ''fixed'']\<rparr>"
  by (simp add: execute_def edit_last_def truthy_string_def)

lemma delete_by_index_default:
  "delete_by_index st ms chatId None = delete_by_index st ms chatId (Some (- 1))"
  by (simp add: delete_by_index_def split: option.splits)

text \<open>
  \<^bold>\<open>C10\<close>. \<^verbatim>\<open>delete_by_index\<close> with the index omitted is \<^verbatim>\<open>delete_by_index\<close> with index
  \<open>-1\<close>: the same result, the same history map, the same gateway calls. On a non-empty
  history with the delete capability configured the gateway is called on the newest record.
\<close>

theorem omitted_index_is_newest:
  assumes "action args = ''delete_by_index''"
  shows "execute st (args\<lparr>index := None\<rparr>) chatId = execute st (args\<lparr>index := Some (- 1)\<rparr>) chatId
       \<and> (deleteMessageCallback st = Some cb \<and> getRecentMessages (recentMessages st) chatId = ms
            \<and> ms \<noteq> [] \<longrightarrow>
          calls (execute st (args\<lparr>index := None\<rparr>) chatId) = [DeleteCall chatId (last ms)])"
proof (intro conjI impI)
  show "execute st (args\<lparr>index := None\<rparr>) chatId = execute st (args\<lparr>index := Some (- 1)\<rparr>) chatId"
    using assms by (simp add: execute_def Let_def delete_by_index_default)
next
  assume pre: "deleteMessageCallback st = Some cb
     \<and> getRecentMessages (recentMessages st) chatId = ms \<and> ms \<noteq> []"
  then have cb: "deleteMessageCallback st = Some cb" and ne: "ms \<noteq> []" by simp_all
  have hist: "recentMessages st chatId = Some ms"
    using pre stored_history by blast
  have pos: "length ms - 1 < length ms" using ne by simp
  show "calls (execute st (args\<lparr>index := None\<rparr>) chatId) = [DeleteCall chatId (last ms)]"
    using assms ne delete_by_index_run [OF cb pos, of None chatId]
    by (simp add: execute_dispatch [OF hist ne] last_conv_nth)
qed

theorem omitted_index_is_newest_witness:
  "calls (execute \<lparr>recentMessages = [5 \<mapsto> [201, 202, 203]],
                    deleteMessageCallback = Some (\<lambda>c m. Returns True),
                    editMessageCallback = None\<rparr>
            \<lparr>action = ''delete_by_index'', index = None, new_text = None\<rparr> 5)
     = [DeleteCall 5 203]
   \<and> stored (execute \<lparr>recentMessages = [5 \<mapsto> [201, 202, 203]],
                    deleteMessageCallback = Some (\<lambda>c m. Returns True),
                    editMessageCallback = None\<rparr>
            \<lparr>action = ''delete_by_index'', index = Some (- 1), new_text = None\<rparr> 5)
     = [5 \<mapsto> [201, 202]]"
  using omitted_index_is_newest
      [of "\<lparr>action = ''delete_by_index'', index = None, new_text = None\<rparr>"
          "\<lparr>recentMessages = [5 \<mapsto> [201, 202, 203]],
            deleteMessageCallback = Some (\<lambda>c m. Returns True),
            editMessageCallback = None\<rparr>" 5 "\<lambda>c m. Returns True" "[201, 202, 203]"]
  by (simp add: getRecentMessages_def execute_def delete_by_index_def)

section \<open>Properties of web search\<close>

lemma render_result_text:
  "render_result i r =
     ''['' @ show_int (int i + 1) @ ''] '' @ title r
       @ (case date r of None \<Rightarrow> [] | Some d \<Rightarrow> if d = [] then [] else '' ('' @ d @ '')'')
       @ [newline] @ url r @ [newline] @ take 400 (content r)"
  by (simp add: render_result_def truthy_string_def split: option.splits)

lemma rendered_entries:
  "length (map (\<lambda>(i, r). render_result i r) (enumerate 0 rs)) = length rs
   \<and> (\<forall>i<length rs. map (\<lambda>(i, r). render_result i r) (enumerate 0 rs) ! i
                        = render_result i (rs ! i))"
  by (simp add: nth_enumerate_eq)

lemma render_outcome_listing:
  assumes "rs \<noteq> []"
  shows "success (render_outcome (Inr rs)) \<and> error (render_outcome (Inr rs)) = None
       \<and> (\<exists>entries. output' (render_outcome (Inr rs)) = Some (join [newline, newline] entries)
            \<and> length entries = length rs
            \<and> (\<forall>i<length rs.
                  entries ! i =
                    ''['' @ show_int (int i + 1) @ ''] '' @ title (rs ! i)
                      @ (case date (rs ! i) of
                           None \<Rightarrow> []
                         | Some d \<Rightarrow> if d = [] then [] else '' ('' @ d @ '')'')
                      @ [newline] @ url (rs ! i) @ [newline] @ take 400 (content (rs ! i))))"
proof -
  let ?entries = "map (\<lambda>(i, r). render_result i r) (enumerate 0 rs)"
  have out: "render_outcome (Inr rs) = succeed (join [newline, newline] ?entries)"
    using assms by (simp add: render_outcome_def)
  have "length ?entries = length rs" and "\<forall>i<length rs. ?entries ! i = render_result i (rs ! i)"
    using rendered_entries [of rs] by simp_all
  then have "output' (render_outcome (Inr rs)) = Some (join [newline, newline] ?entries)
            \<and> length ?entries = length rs
            \<and> (\<forall>i<length rs.
                  ?entries ! i =
                    ''['' @ show_int (int i + 1) @ ''] '' @ title (rs ! i)
                      @ (case date (rs ! i) of
                           None \<Rightarrow> []
                         | Some d \<Rightarrow> if d = [] then [] else '' ('' @ d @ '')'')
                      @ [newline] @ url (rs ! i) @ [newline] @ take 400 (content (rs ! i)))"
    by (simp add: out succeed_def render_result_text)
  then have "\<exists>entries. output' (render_outcome (Inr rs)) = Some (join [newline, newline] entries)
            \<and> length entries = length rs
            \<and> (\<forall>i<length rs.
                  entries ! i =
                    ''['' @ show_int (int i + 1) @ ''] '' @ title (rs ! i)
                      @ (case date (rs ! i) of
                           None \<Rightarrow> []
                         | Some d \<Rightarrow> if d = [] then [] else '' ('' @ d @ '')'')
                      @ [newline] @ url (rs ! i) @ [newline] @ take 400 (content (rs ! i)))"
    by (rule exI [where x = "?entries"])
  then show ?thesis
    by (simp add: out succeed_def)
qed

lemma search_zai_ok:
  "truthy_string zaiApiKey = Some zkey \<Longrightarrow> searchZai query zkey = Inr rs \<Longrightarrow>
   executeSearchWeb searchZai searchTavily query zaiApiKey tavilyApiKey
     = (render_outcome (Inr rs), [ZaiCall query zkey])"
  by (simp add: executeSearchWeb_def)

lemma search_zai_failed_fallback:
  "truthy_string zaiApiKey = Some zkey \<Longrightarrow> searchZai query zkey = Inl e \<Longrightarrow>
   truthy_string tavilyApiKey = Some tkey \<Longrightarrow>
   executeSearchWeb searchZai searchTavily query zaiApiKey tavilyApiKey
     = (render_outcome (searchTavily query tkey), [ZaiCall query zkey, TavilyCall query tkey])"
  by (simp add: executeSearchWeb_def)

lemma search_zai_failed_alone:
  "truthy_string zaiApiKey = Some zkey \<Longrightarrow> searchZai query zkey = Inl e \<Longrightarrow>
   truthy_string tavilyApiKey = None \<Longrightarrow>
   executeSearchWeb searchZai searchTavily query zaiApiKey tavilyApiKey
     = (fail e, [ZaiCall query zkey])"
  by (simp add: executeSearchWeb_def render_outcome_def)

lemma search_tavily_only:
  "truthy_string zaiApiKey = None \<Longrightarrow> truthy_string tavilyApiKey = Some tkey \<Longrightarrow>
   executeSearchWeb searchZai searchTavily query zaiApiKey tavilyApiKey
     = (render_outcome (searchTavily query tkey), [TavilyCall query tkey])"
  by (simp add: executeSearchWeb_def)

lemma search_unconfigured:
  "truthy_string zaiApiKey = None \<Longrightarrow> truthy_string tavilyApiKey = None \<Longrightarrow>
   executeSearchWeb searchZai searchTavily query zaiApiKey tavilyApiKey
     = (fail ''No search API configured (ZAI_API_KEY or TAVILY_API_KEY)'', [])"
  by (simp add: executeSearchWeb_def)

text \<open>
  \<^bold>\<open>C9\<close>. A credential is configured when it is a non-empty string.
  \<^item> When the Z.AI credential is configured, the first provider contacted is Z.AI.
  \<^item> When Z.AI fails (it raises, or its credential is not configured) and the Tavily
    credential is configured, Tavily is contacted last and the result is the one the call
    would give with Tavily alone.
  \<^item> When neither credential is configured, the call fails with the configuration error
    and contacts no provider.
  \<^item> When the provider that answers returns a non-empty list \<open>rs\<close>, the call succeeds and
    the output is the entries joined by a blank line, one entry per result in order, entry
    \<open>i\<close> (from 0) being \<^verbatim>\<open>[i+1] title\<close>, the date in parentheses when there is one, the
    URL on the next line and the first 400 characters of the content on a third.
\<close>

theorem search_fallback_chain:
  "(truthy_string zaiApiKey = Some zkey \<longrightarrow>
      hd (snd (executeSearchWeb searchZai searchTavily query zaiApiKey tavilyApiKey))
        = ZaiCall query zkey
    \<and> snd (executeSearchWeb searchZai searchTavily query zaiApiKey tavilyApiKey) \<noteq> [])
   \<and> (truthy_string tavilyApiKey = Some tkey
       \<and> (truthy_string zaiApiKey = None
          \<or> truthy_string zaiApiKey = Some zkey \<and> searchZai query zkey = Inl e) \<longrightarrow>
      last (snd (executeSearchWeb searchZai searchTavily query zaiApiKey tavilyApiKey))
        = TavilyCall query tkey
    \<and> fst (executeSearchWeb searchZai searchTavily query zaiApiKey tavilyApiKey)
        = fst (executeSearchWeb searchZai searchTavily query None tavilyApiKey))
   \<and> (truthy_string zaiApiKey = None \<and> truthy_string tavilyApiKey = None \<longrightarrow>
      executeSearchWeb searchZai searchTavily query zaiApiKey tavilyApiKey
        = (\<lparr>success = False, output' = None,
            error = Some ''No search API configured (ZAI_API_KEY or TAVILY_API_KEY)''\<rparr>, []))
   \<and> (rs \<noteq> []
       \<and> (truthy_string zaiApiKey = Some zkey \<and> searchZai query zkey = Inr rs
          \<or> truthy_string tavilyApiKey = Some tkey \<and> searchTavily query tkey = Inr rs
            \<and> (truthy_string zaiApiKey = None
               \<or> truthy_string zaiApiKey = Some zkey \<and> searchZai query zkey = Inl e)) \<longrightarrow>
      success (fst (executeSearchWeb searchZai searchTavily query zaiApiKey tavilyApiKey))
    \<and> error (fst (executeSearchWeb searchZai searchTavily query zaiApiKey tavilyApiKey)) = None
    \<and> (\<exists>entries.
          output' (fst (executeSearchWeb searchZai searchTavily query zaiApiKey tavilyApiKey))
            = Some (join [newline, newline] entries)
        \<and> length entries = length rs
        \<and> (\<forall>i<length rs.
              entries ! i =
                ''['' @ show_int (int i + 1) @ ''] '' @ title (rs ! i)
                  @ (case date (rs ! i) of
                       None \<Rightarrow> []
                     | Some d \<Rightarrow> if d = [] then [] else '' ('' @ d @ '')'')
                  @ [newline] @ url (rs ! i) @ [newline] @ take 400 (content (rs ! i)))))"
proof (intro conjI impI)
  assume "truthy_string zaiApiKey = Some zkey"
  then show "hd (snd (executeSearchWeb searchZai searchTavily query zaiApiKey tavilyApiKey))
               = ZaiCall query zkey"
    and "snd (executeSearchWeb searchZai searchTavily query zaiApiKey tavilyApiKey) \<noteq> []"
    by (simp_all add: executeSearchWeb_def split: sum.splits option.splits)
next
  assume pre: "truthy_string tavilyApiKey = Some tkey
       \<and> (truthy_string zaiApiKey = None
          \<or> truthy_string zaiApiKey = Some zkey \<and> searchZai query zkey = Inl e)"
  have none: "truthy_string None = None" by (simp add: truthy_string_def)
  from pre have used:
    "executeSearchWeb searchZai searchTavily query zaiApiKey tavilyApiKey
       = (render_outcome (searchTavily query tkey), [TavilyCall query tkey])
     \<or> executeSearchWeb searchZai searchTavily query zaiApiKey tavilyApiKey
       = (render_outcome (searchTavily query tkey), [ZaiCall query zkey, TavilyCall query tkey])"
    using search_tavily_only search_zai_failed_fallback by blast
  have only: "executeSearchWeb searchZai searchTavily query None tavilyApiKey
       = (render_outcome (searchTavily query tkey), [TavilyCall query tkey])"
    using pre none by (simp add: search_tavily_only)
  show "last (snd (executeSearchWeb searchZai searchTavily query zaiApiKey tavilyApiKey))
          = TavilyCall query tkey"
    using used by auto
  show "fst (executeSearchWeb searchZai searchTavily query zaiApiKey tavilyApiKey)
          = fst (executeSearchWeb searchZai searchTavily query None tavilyApiKey)"
    using used only by auto
next
  assume "truthy_string zaiApiKey = None \<and> truthy_string tavilyApiKey = None"
  then show "executeSearchWeb searchZai searchTavily query zaiApiKey tavilyApiKey
        = (\<lparr>success = False, output' = None,
            error = Some ''No search API configured (ZAI_API_KEY or TAVILY_API_KEY)''\<rparr>, [])"
    by (simp add: search_unconfigured fail_def)
next
  assume pre: "rs \<noteq> []
       \<and> (truthy_string zaiApiKey = Some zkey \<and> searchZai query zkey = Inr rs
          \<or> truthy_string tavilyApiKey = Some tkey \<and> searchTavily query tkey = Inr rs
            \<and> (truthy_string zaiApiKey = None
               \<or> truthy_string zaiApiKey = Some zkey \<and> searchZai query zkey = Inl e))"
  then have ne: "rs \<noteq> []" by simp
  from pre have rendered:
    "fst (executeSearchWeb searchZai searchTavily query zaiApiKey tavilyApiKey)
       = render_outcome (Inr rs)"
    using search_zai_ok [of zaiApiKey zkey searchZai query rs searchTavily tavilyApiKey]
      search_tavily_only [of zaiApiKey tavilyApiKey tkey searchZai searchTavily query]
      search_zai_failed_fallback [of zaiApiKey zkey searchZai query e tavilyApiKey tkey searchTavily]
    by auto
  show "success (fst (executeSearchWeb searchZai searchTavily query zaiApiKey tavilyApiKey))"
    and "error (fst (executeSearchWeb searchZai searchTavily query zaiApiKey tavilyApiKey)) = None"
    and "\<exists>entries.
          output' (fst (executeSearchWeb searchZai searchTavily query zaiApiKey tavilyApiKey))
            = Some (join [newline, newline] entries)
        \<and> length entries = length rs
        \<and> (\<forall>i<length rs.
              entries ! i =
                ''['' @ show_int (int i + 1) @ ''] '' @ title (rs ! i)
                  @ (case date (rs ! i) of
                       None \<Rightarrow> []
                     | Some d \<Rightarrow> if d = [] then [] else '' ('' @ d @ '')'')
                  @ [newline] @ url (rs ! i) @ [newline] @ take 400 (content (rs ! i)))"
    using render_outcome_listing [OF ne] by (simp_all only: rendered)
qed

text \<open>
  Z.AI raises, Tavily returns two results, the second with 500 characters of content: both
  providers are contacted in that order and the second entry carries 400 characters.
\<close>

theorem search_fallback_chain_witness:
  "hd (snd (executeSearchWeb (\<lambda>q k. Inl ''Z.AI error: 500'')
             (\<lambda>q k. Inr [\<lparr>title = ''T1'', url = ''http://a'', content = ''hello'',
                             date = Some ''2024''\<rparr>,
                           \<lparr>title = ''T2'', url = ''http://b'',
                             content = replicate 500 CHR ''x'', date = None\<rparr>])
             ''q'' (Some ''zk'') (Some ''tk'')))
     = ZaiCall ''q'' ''zk''
   \<and> last (snd (executeSearchWeb (\<lambda>q k. Inl ''Z.AI error: 500'')
             (\<lambda>q k. Inr [\<lparr>title = ''T1'', url = ''http://a'', content = ''hello'',
                             date = Some ''2024''\<rparr>,
                           \<lparr>title = ''T2'', url = ''http://b'',
                             content = replicate 500 CHR ''x'', date = None\<rparr>])
             ''q'' (Some ''zk'') (Some ''tk'')))
     = TavilyCall ''q'' ''tk''
   \<and> output' (fst (executeSearchWeb (\<lambda>q k. Inl ''Z.AI error: 500'')
             (\<lambda>q k. Inr [\<lparr>title = ''T1'', url = ''http://a'', content = ''hello'',
                             date = Some ''2024''\<rparr>,
                           \<lparr>title = ''T2'', url = ''http://b'',
                             content = replicate 500 CHR ''x'', date = None\<rparr>])
             ''q'' (Some ''zk'') (Some ''tk'')))
     = Some (''[1] T1 (2024)'' @ [newline] @ ''http://a'' @ [newline] @ ''hello''
             @ [newline, newline]
             @ ''[2] T2'' @ [newline] @ ''http://b'' @ [newline] @ replicate 400 CHR ''x'')"
  using search_fallback_chain
      [of "Some ''zk''" "''zk''" "\<lambda>q k. Inl ''Z.AI error: 500''"
          "\<lambda>q k. Inr [\<lparr>title = ''T1'', url = ''http://a'', content = ''hello'',
                          date = Some ''2024''\<rparr>,
                        \<lparr>title = ''T2'', url = ''http://b'',
                          content = replicate 500 CHR ''x'', date = None\<rparr>]"
          "''q''" "Some ''tk''" "''tk''" "''Z.AI error: 500''"
          "[\<lparr>title = ''T1'', url = ''http://a'', content = ''hello'', date = Some ''2024''\<rparr>,
            \<lparr>title = ''T2'', url = ''http://b'', content = replicate 500 CHR ''x'',
              date = None\<rparr>]"]
  by (simp add: truthy_string_def executeSearchWeb_def render_outcome_def render_result_def
        succeed_def show_int_def show_nat.simps digit_char_def)

end
